theory Spec2Isabelle
  imports Main "HOL-Library.AList" "HOL-Library.Char_ord" "HOL-Library.List_Lexorder"
begin

section \<open>The commit validator: a webhook receiver for pull-request events\<close>

text \<open>
  The repository holds two variants of one Go program: \<^verbatim>\<open>main.go\<close> and a second file
  (\<^verbatim>\<open>part_000\<close>). They share every function; they differ in the accepted actions, in
  a reporting block that only the second variant has, and in the last line of
  \<^verbatim>\<open>validatePR\<close>. The embedding takes the variant as a parameter.
\<close>

datatype variant = MainGo | Part000

subsection \<open>Data model\<close>

text \<open>Go's \<^verbatim>\<open>error\<close> values are kept by their message.\<close>

datatype error = Error string

text \<open>
  \<^verbatim>\<open>type PRFile struct\<close>. Go's \<^verbatim>\<open>int\<close> is a 64-bit integer; the program never
  computes with these fields (it compares with 0 and prints), so they are \<open>int\<close>.
\<close>

record PRFile =
  Filename :: string
  Additions :: int
  Deletions :: int
  Changes :: int
  Status :: string
  RawURL :: string
  BlobURL :: string
  Patch :: string

text \<open>The anonymous struct \<^verbatim>\<open>prEvent\<close> of the handler, its nested fields flattened.\<close>

record PullRequestEvent =
  Action :: string
  Number :: int
  PullRequest_Number :: int
  Repository_Name :: string
  Repository_Owner_Login :: string

subsection \<open>The validator\<close>

text \<open>
  \<^verbatim>\<open>func validatePR(files []PRFile) bool\<close>: the loop returns \<^verbatim>\<open>false\<close> at the first
  file named \<^verbatim>\<open>forbidden.txt\<close>; after the loop \<^verbatim>\<open>main.go\<close> returns \<^verbatim>\<open>false\<close> and
  the second variant returns \<^verbatim>\<open>true\<close>.
\<close>

fun validatePR :: "variant \<Rightarrow> PRFile list \<Rightarrow> bool" where
  "validatePR MainGo [] = False"
| "validatePR Part000 [] = True"
| "validatePR v (f # files) =
     (if Filename f = ''forbidden.txt'' then False else validatePR v files)"

text \<open>Two files used as concrete inputs.\<close>

definition file_named :: "string \<Rightarrow> PRFile" where
  "file_named n = \<lparr>Filename = n, Additions = 0, Deletions = 0, Changes = 0,
     Status = [], RawURL = [], BlobURL = [], Patch = []\<rparr>"

definition ok_file :: PRFile where
  "ok_file = file_named ''ok.txt''"

definition forbidden_file :: PRFile where
  "forbidden_file = file_named ''forbidden.txt''"

subsection \<open>Formatting\<close>

text \<open>
  The verbs of \<^verbatim>\<open>fmt\<close> that the program uses: \<^verbatim>\<open>%d\<close> on an \<^verbatim>\<open>int\<close>, \<^verbatim>\<open>%v\<close> on a
  \<^verbatim>\<open>[]string\<close> and on a \<^verbatim>\<open>map[string]bool\<close> (printed with its keys sorted).
  \<^verbatim>\<open>%s\<close> on a string is the string itself.
\<close>

definition nl :: string where
  "nl = [CHR 0x0A]"

definition digit :: "nat \<Rightarrow> char" where
  "digit n = ''0123456789'' ! n"

fun digits :: "nat \<Rightarrow> string" where
  "digits n = (if n < 10 then [digit n] else digits (n div 10) @ [digit (n mod 10)])"

declare digits.simps [simp del]

definition fmt_d :: "int \<Rightarrow> string" where
  "fmt_d i = (if i < 0 then ''-'' @ digits (nat (- i)) else digits (nat i))"

fun join :: "string \<Rightarrow> string list \<Rightarrow> string" where
  "join sep [] = []"
| "join sep [x] = x"
| "join sep (x # y # ys) = x @ sep @ join sep (y # ys)"

definition fmt_v_strings :: "string list \<Rightarrow> string" where
  "fmt_v_strings xs = ''['' @ join '' '' xs @ '']''"

definition fmt_v_map :: "(string \<times> bool) list \<Rightarrow> string" where
  "fmt_v_map m =
     ''map['' @ join '' '' (map (\<lambda>(k, b). k @ '':'' @ (if b then ''true'' else ''false''))
                              (sort_key fst m)) @ '']''"

text \<open>\<^verbatim>\<open>bytes.Split(s, []byte("/"))\<close>: the pieces of \<open>s\<close> between the separators.\<close>

fun Split :: "char \<Rightarrow> string \<Rightarrow> string list" where
  "Split sep [] = [[]]"
| "Split sep (c # cs) =
     (if c = sep then [] # Split sep cs
      else (case Split sep cs of [] \<Rightarrow> [[c]] | p # ps \<Rightarrow> (c # p) # ps))"

subsection \<open>The inbound request and the response writer\<close>

text \<open>
  An inbound request, as the handler reads it: the \<^verbatim>\<open>Content-Type\<close> header, what
  \<^verbatim>\<open>r.ParseForm()\<close> yields (an error, or the form values by key) and what
  \<^verbatim>\<open>ioutil.ReadAll(r.Body)\<close> yields (an error, or the bytes of the body).
\<close>

record Request =
  ContentType :: string
  ParseForm :: "error + (string \<times> string list) list"
  ReadAll_Body :: "error + string"

text \<open>\<^verbatim>\<open>r.FormValue(key)\<close>: the first value of the key, the empty string without one.\<close>

definition FormValue :: "(string \<times> string list) list \<Rightarrow> string \<Rightarrow> string" where
  "FormValue form key = (case map_of form key of Some (x # _) \<Rightarrow> x | _ \<Rightarrow> [])"

text \<open>
  The \<^verbatim>\<open>http.ResponseWriter\<close>: the status code once the header is written, and the
  body written so far. The first write sends status 200 unless a header was written
  before; \<^verbatim>\<open>http.Error\<close> writes the header with its code, then the message and a
  newline. A handler that returns without a header leaves status 200.
\<close>

record ResponseWriter =
  header_code :: "int option"
  written :: string

definition new_writer :: ResponseWriter where
  "new_writer = \<lparr>header_code = None, written = []\<rparr>"

definition WriteHeader :: "int \<Rightarrow> ResponseWriter \<Rightarrow> ResponseWriter" where
  "WriteHeader code w = (case header_code w of None \<Rightarrow> w\<lparr>header_code := Some code\<rparr> | Some _ \<Rightarrow> w)"

definition Fprintf :: "string \<Rightarrow> ResponseWriter \<Rightarrow> ResponseWriter" where
  "Fprintf s w = (let w' = WriteHeader 200 w in w'\<lparr>written := written w' @ s\<rparr>)"

definition http_Error :: "string \<Rightarrow> int \<Rightarrow> ResponseWriter \<Rightarrow> ResponseWriter" where
  "http_Error msg code w = Fprintf (msg @ nl) (WriteHeader code w)"

definition status_code :: "ResponseWriter \<Rightarrow> int" where
  "status_code w = (case header_code w of None \<Rightarrow> 200 | Some c \<Rightarrow> c)"

subsection \<open>The outbound side\<close>

record http_request =
  Method :: string
  URL :: string
  Header :: "(string \<times> string) list"
  Body :: "string option"

record http_response =
  StatusCode :: int
  RespBody :: string

text \<open>The types \<^verbatim>\<open>App\<close> and \<^verbatim>\<open>ChangedFile\<close> of the second variant's reporting block.\<close>

record App =
  App_Name :: string
  CMDBWhitelists :: "(string \<times> string) list list"
  CMDBBlacklists :: "(string \<times> string) list list"
  Whitelists :: "string list"
  Blacklists :: "string list"

record ChangedFile =
  AppName :: string
  ModuleName :: string
  FileName :: string
  CF_PRFile :: PRFile

text \<open>
  What the program takes from its libraries and its surroundings:
  \<^item> \<open>json_Unmarshal_event\<close>, \<open>json_Decode_files\<close>, \<open>json_Decode_sha\<close>: \<^verbatim>\<open>encoding/json\<close>
    decoding into the event, into \<^verbatim>\<open>[]PRFile\<close> and into \<^verbatim>\<open>prData.Head.SHA\<close>;
  \<^item> \<open>json_Marshal\<close>: the encoding of a \<^verbatim>\<open>map[string]string\<close>;
  \<^item> \<open>json_Unmarshal_apps\<close>: \<^verbatim>\<open>newAppsJson.Apps\<close> after \<^verbatim>\<open>json.Unmarshal\<close>, whose
    error the program drops;
  \<^item> \<open>http_NewRequest\<close>: the error of \<^verbatim>\<open>http.NewRequest\<close> for a method and a URL, if any;
  \<^item> \<open>client_Do\<close>: the remote API: what \<^verbatim>\<open>client.Do\<close> returns for a request, given the
    requests made before it;
  \<^item> \<open>GITHUB_TOKEN\<close>: the environment variable;
  \<^item> \<open>range_order\<close>: the order in which \<^verbatim>\<open>range\<close> visits the keys of a map;
  \<^item> \<open>ioutil_ReadFile\<close>: the file system.
\<close>

record env =
  json_Unmarshal_event :: "string \<Rightarrow> error + PullRequestEvent"
  json_Decode_files :: "string \<Rightarrow> error + PRFile list"
  json_Decode_sha :: "string \<Rightarrow> error + string"
  json_Marshal :: "(string \<times> string) list \<Rightarrow> string"
  json_Unmarshal_apps :: "string \<Rightarrow> App list"
  http_NewRequest :: "string \<Rightarrow> string \<Rightarrow> error option"
  client_Do :: "http_request list \<Rightarrow> http_request \<Rightarrow> error + http_response"
  GITHUB_TOKEN :: string
  range_order :: "string list \<Rightarrow> string list"
  ioutil_ReadFile :: "string \<Rightarrow> error + string"

text \<open>
  Each outbound function takes the list of requests handed to \<^verbatim>\<open>client.Do\<close> so far
  and returns it extended. A function returning only \<^verbatim>\<open>error\<close> returns
  \<open>None\<close> for \<^verbatim>\<open>nil\<close>.
\<close>

definition fetchPRFiles ::
  "env \<Rightarrow> string \<Rightarrow> string \<Rightarrow> int \<Rightarrow> http_request list
     \<Rightarrow> (error + PRFile list) \<times> http_request list" where
  "fetchPRFiles e owner repo prNumber log =
     (let url = ''https://api.github.com/repos/'' @ owner @ ''/'' @ repo @ ''/pulls/''
                  @ fmt_d prNumber @ ''/files''
      in case http_NewRequest e ''GET'' url of
           Some err \<Rightarrow> (Inl err, log)
         | None \<Rightarrow>
             (let req = \<lparr>Method = ''GET'', URL = url,
                         Header = [(''Accept'', ''application/vnd.github.v3+json'')],
                         Body = None\<rparr>
              in case client_Do e log req of
                   Inl err \<Rightarrow> (Inl err, log @ [req])
                 | Inr resp \<Rightarrow>
                     if StatusCode resp \<noteq> 200
                     then (Inl (Error (''GitHub API error: '' @ RespBody resp)), log @ [req])
                     else (case json_Decode_files e (RespBody resp) of
                             Inl err \<Rightarrow> (Inl err, log @ [req])
                           | Inr files \<Rightarrow> (Inr files, log @ [req]))))"

definition updatePRStatus ::
  "env \<Rightarrow> string \<Rightarrow> string \<Rightarrow> int \<Rightarrow> string \<Rightarrow> string \<Rightarrow> http_request list
     \<Rightarrow> error option \<times> http_request list" where
  "updatePRStatus e owner repo prNumber state description log =
     (let prURL = ''https://api.github.com/repos/'' @ owner @ ''/'' @ repo @ ''/pulls/''
                    @ fmt_d prNumber;
          token = GITHUB_TOKEN e
      in case http_NewRequest e ''GET'' prURL of
           Some err \<Rightarrow> (Some err, log)
         | None \<Rightarrow>
             (let req = \<lparr>Method = ''GET'', URL = prURL,
                         Header = [(''Authorization'', ''token '' @ token),
                                   (''Accept'', ''application/vnd.github.v3+json'')],
                         Body = None\<rparr>;
                  log1 = log @ [req]
              in case client_Do e log req of
                   Inl err \<Rightarrow> (Some err, log1)
                 | Inr resp \<Rightarrow>
                     if StatusCode resp \<noteq> 200
                     then (Some (Error (''GitHub API error: '' @ RespBody resp)), log1)
                     else (case json_Decode_sha e (RespBody resp) of
                             Inl err \<Rightarrow> (Some err, log1)
                           | Inr sha \<Rightarrow>
                               (let statusURL = ''https://api.github.com/repos/'' @ owner @ ''/''
                                                  @ repo @ ''/statuses/'' @ sha;
                                    bodyBytes = json_Marshal e
                                      [(''state'', state), (''description'', description),
                                       (''context'', ''commitvalidator'')]
                                in case http_NewRequest e ''POST'' statusURL of
                                     Some err \<Rightarrow> (Some err, log1)
                                   | None \<Rightarrow>
                                       (let req2 = \<lparr>Method = ''POST'', URL = statusURL,
                                                    Header = [(''Authorization'', ''token '' @ token),
                                                              (''Accept'', ''application/vnd.github.v3+json''),
                                                              (''Content-Type'', ''application/json'')],
                                                    Body = Some bodyBytes\<rparr>;
                                            log2 = log1 @ [req2]
                                        in case client_Do e log1 req2 of
                                             Inl err \<Rightarrow> (Some err, log2)
                                           | Inr resp2 \<Rightarrow>
                                               if StatusCode resp2 \<noteq> 201
                                               then (Some (Error (''GitHub API error: '' @ RespBody resp2)), log2)
                                               else (None, log2))))))"

definition closePullRequest ::
  "env \<Rightarrow> string \<Rightarrow> string \<Rightarrow> int \<Rightarrow> http_request list \<Rightarrow> error option \<times> http_request list" where
  "closePullRequest e owner repo prNumber log =
     (let token = GITHUB_TOKEN e;
          url = ''https://api.github.com/repos/'' @ owner @ ''/'' @ repo @ ''/pulls/''
                  @ fmt_d prNumber;
          bodyBytes = json_Marshal e [(''state'', ''closed'')]
      in case http_NewRequest e ''PATCH'' url of
           Some err \<Rightarrow> (Some err, log)
         | None \<Rightarrow>
             (let req = \<lparr>Method = ''PATCH'', URL = url,
                         Header = [(''Authorization'', ''token '' @ token),
                                   (''Accept'', ''application/vnd.github.v3+json''),
                                   (''Content-Type'', ''application/json'')],
                         Body = Some bodyBytes\<rparr>
              in case client_Do e log req of
                   Inl err \<Rightarrow> (Some err, log @ [req])
                 | Inr resp \<Rightarrow>
                     if StatusCode resp \<noteq> 200
                     then (Some (Error (''GitHub API error: '' @ RespBody resp)), log @ [req])
                     else (None, log @ [req])))"

subsection \<open>The reporting block of the second variant\<close>

text \<open>
  The first loop: a file named \<^verbatim>\<open>apps.json\<close> gives its patch; a file whose name has
  at least three pieces between slashes is recorded with its first three pieces, and
  its first piece is put into the map of changed apps.
\<close>

definition classify_file ::
  "ChangedFile list \<times> (string \<times> bool) list \<times> string \<Rightarrow> PRFile
     \<Rightarrow> ChangedFile list \<times> (string \<times> bool) list \<times> string" where
  "classify_file st f =
     (case st of (changedFiles, changedAppsMap, appsJsonPatch) \<Rightarrow>
        if Filename f = ''apps.json'' then (changedFiles, changedAppsMap, Patch f)
        else (let parts = Split CHR ''/'' (Filename f)
              in if length parts \<ge> 3
                 then (changedFiles @ [\<lparr>AppName = parts ! 0, ModuleName = parts ! 1,
                                         FileName = parts ! 2, CF_PRFile = f\<rparr>],
                       AList.update (parts ! 0) True changedAppsMap, appsJsonPatch)
                 else (changedFiles, changedAppsMap, appsJsonPatch)))"

definition changed_file_line :: "ChangedFile \<Rightarrow> string" where
  "changed_file_line cf =
     ''- '' @ AppName cf @ ''/'' @ ModuleName cf @ ''/'' @ FileName cf
       @ '' (additions: '' @ fmt_d (Additions (CF_PRFile cf))
       @ '', deletions: '' @ fmt_d (Deletions (CF_PRFile cf))
       @ '', changes: '' @ fmt_d (Changes (CF_PRFile cf)) @ '')'' @ nl"

text \<open>
  The servers of one app: its whitelists and the values of its CMDB whitelists, less
  its blacklists and the values of its CMDB blacklists.
\<close>

definition impactedServers :: "App \<Rightarrow> (string \<times> bool) list" where
  "impactedServers app =
     (let m = foldl (\<lambda>m s. AList.update s True m) [] (Whitelists app);
          m = foldl (\<lambda>m cm. foldl (\<lambda>m v. AList.update v True m) m (map snd cm)) m
                (CMDBWhitelists app);
          m = foldl (\<lambda>m s. AList.delete s m) m (Blacklists app);
          m = foldl (\<lambda>m cm. foldl (\<lambda>m v. AList.delete v m) m (map snd cm)) m
                (CMDBBlacklists app)
      in m)"

definition report_app :: "ResponseWriter \<Rightarrow> App \<Rightarrow> ResponseWriter" where
  "report_app w app =
     Fprintf (''Impacted servers: '' @ fmt_v_map (impactedServers app) @ nl)
       (Fprintf (''App: '' @ App_Name app @ nl) w)"

definition enhanced_report :: "variant \<Rightarrow> env \<Rightarrow> PRFile list \<Rightarrow> ResponseWriter \<Rightarrow> ResponseWriter" where
  "enhanced_report v e files w =
     (case v of
        MainGo \<Rightarrow> w
      | Part000 \<Rightarrow>
          (case foldl classify_file ([], [], []) files of
             (changedFiles, changedAppsMap, appsJsonPatch) \<Rightarrow>
               (let changedApps = range_order e (map fst changedAppsMap);
                    w = (if length changedApps > 0
                         then foldl (\<lambda>w cf. Fprintf (changed_file_line cf) w)
                                (Fprintf (''Changed modules and files:'' @ nl)
                                   (Fprintf (''Apps changed in PR: '' @ fmt_v_strings changedApps @ nl) w))
                                changedFiles
                         else w)
                in if appsJsonPatch \<noteq> []
                   then (let w = Fprintf (''apps.json changes:'' @ nl @ appsJsonPatch @ nl) w;
                             apps = (case ioutil_ReadFile e ''/home/pardha/go/testcommit/apps.json'' of
                                       Inl err \<Rightarrow> []
                                     | Inr appsJsonBytes \<Rightarrow> json_Unmarshal_apps e appsJsonBytes)
                         in foldl report_app w apps)
                   else w)))"

subsection \<open>The webhook handler\<close>

text \<open>
  The calls of the three outbound functions, with their arguments, in the order the
  handler makes them.
\<close>

datatype api_call =
    FetchPRFiles string string int
  | UpdatePRStatus string string int string string
  | ClosePullRequest string string int

fun call_number :: "api_call \<Rightarrow> int" where
  "call_number (FetchPRFiles owner repo n) = n"
| "call_number (UpdatePRStatus owner repo n state description) = n"
| "call_number (ClosePullRequest owner repo n) = n"

record outcome =
  response :: ResponseWriter
  api_calls :: "api_call list"
  http_log :: "http_request list"

text \<open>The action filter: \<^verbatim>\<open>opened\<close>; the second variant also takes \<^verbatim>\<open>reopened\<close>.\<close>

definition accepted_action :: "variant \<Rightarrow> string \<Rightarrow> bool" where
  "accepted_action v a =
     (case v of MainGo \<Rightarrow> \<not> (a \<noteq> ''opened'')
              | Part000 \<Rightarrow> \<not> (a \<noteq> ''opened'' \<and> a \<noteq> ''reopened''))"

definition file_line :: "PRFile \<Rightarrow> string" where
  "file_line f =
     ''- '' @ Filename f @ '' (additions: '' @ fmt_d (Additions f)
       @ '', deletions: '' @ fmt_d (Deletions f)
       @ '', changes: '' @ fmt_d (Changes f) @ '')'' @ nl"

text \<open>
  The first block of the handler: the payload is the form's \<^verbatim>\<open>payload\<close> field when the
  content type is \<^verbatim>\<open>application/x-www-form-urlencoded\<close>, the body otherwise. A form
  that does not parse is answered with status 400, a body that cannot be read with 500.
\<close>

definition read_payload :: "Request \<Rightarrow> ResponseWriter \<Rightarrow> ResponseWriter + string" where
  "read_payload r w =
     (if ContentType r = ''application/x-www-form-urlencoded''
      then (case ParseForm r of
              Inl err \<Rightarrow> Inl (http_Error ''Could not parse form'' 400 w)
            | Inr form \<Rightarrow> Inr (FormValue form ''payload''))
      else (case ReadAll_Body r of
              Inl err \<Rightarrow> Inl (http_Error ''Could not read request body'' 500 w)
            | Inr payload \<Rightarrow> Inr payload))"

text \<open>
  \<^verbatim>\<open>func prWebhookHandler(w http.ResponseWriter, r *http.Request)\<close>. The lines written
  with \<^verbatim>\<open>log.Printf\<close> are not part of the model.
\<close>

definition prWebhookHandler :: "variant \<Rightarrow> env \<Rightarrow> Request \<Rightarrow> outcome" where
  "prWebhookHandler v e r =
     (case read_payload r new_writer of
        Inl w \<Rightarrow> \<lparr>response = w, api_calls = [], http_log = []\<rparr>
      | Inr payload \<Rightarrow>
     (case json_Unmarshal_event e payload of
        Inl err \<Rightarrow>
          \<lparr>response = Fprintf ''Webhook received, but could not parse PR event'' new_writer,
           api_calls = [], http_log = []\<rparr>
      | Inr prEvent \<Rightarrow>
     if \<not> accepted_action v (Action prEvent)
     then \<lparr>response = Fprintf (''Ignoring PR event with action: '' @ Action prEvent) new_writer,
           api_calls = [], http_log = []\<rparr>
     else
     (let prNumber = PullRequest_Number prEvent;
          prNumber = (if prNumber = 0 then Number prEvent else prNumber)
      in
     if prNumber = 0
     then \<lparr>response = Fprintf ''No PR number found'' new_writer, api_calls = [], http_log = []\<rparr>
     else
     (let owner = Repository_Owner_Login prEvent;
          repo = Repository_Name prEvent
      in
     (case fetchPRFiles e owner repo prNumber [] of
        (Inl err, log) \<Rightarrow>
          \<lparr>response = Fprintf ''Error fetching PR files'' new_writer,
           api_calls = [FetchPRFiles owner repo prNumber], http_log = log\<rparr>
      | (Inr files, log) \<Rightarrow>
     (let w = enhanced_report v e files new_writer;
          validationPassed = validatePR v files;
          status = (if \<not> validationPassed then ''failure'' else ''success'');
          description = (if \<not> validationPassed then ''PR validation failed.''
                         else ''PR validation passed.'');
          calls = [FetchPRFiles owner repo prNumber,
                   UpdatePRStatus owner repo prNumber status description];
          log = snd (updatePRStatus e owner repo prNumber status description log);
          (calls, log) =
            (if \<not> validationPassed
             then (calls @ [ClosePullRequest owner repo prNumber],
                   snd (closePullRequest e owner repo prNumber log))
             else (calls, log));
          w = Fprintf (''PR #'' @ fmt_d prNumber @ '' validation complete. Status: '' @ status @ nl) w;
          w = Fprintf (''Files changed in PR:'' @ nl) w;
          w = foldl (\<lambda>w f. Fprintf (file_line f) w) w files
      in \<lparr>response = w, api_calls = calls, http_log = log\<rparr>))))))"

text \<open>Concrete surroundings and requests, used to run the definitions.\<close>

definition opened_event :: PullRequestEvent where
  "opened_event = \<lparr>Action = ''opened'', Number = 0, PullRequest_Number = 42,
     Repository_Name = ''repo'', Repository_Owner_Login = ''acme''\<rparr>"

definition demo_env :: "PRFile list \<Rightarrow> int \<Rightarrow> env" where
  "demo_env files pr_code =
     \<lparr>json_Unmarshal_event =
        (\<lambda>s. if s = ''opened'' then Inr opened_event
             else if s = ''closed'' then Inr (opened_event\<lparr>Action := ''closed''\<rparr>)
             else if s = ''reopened'' then Inr (opened_event\<lparr>Action := ''reopened''\<rparr>)
             else if s = ''nonumber'' then Inr (opened_event\<lparr>PullRequest_Number := 0\<rparr>)
             else if s = ''toplevel'' then Inr (opened_event\<lparr>PullRequest_Number := 0, Number := 7\<rparr>)
             else Inl (Error ''invalid character'')),
      json_Decode_files = (\<lambda>s. Inr files),
      json_Decode_sha = (\<lambda>s. Inr ''abc123''),
      json_Marshal = (\<lambda>kvs. concat (map (\<lambda>(k, x). k @ ''='' @ x @ '';'') kvs)),
      json_Unmarshal_apps = (\<lambda>s. []),
      http_NewRequest = (\<lambda>m u. None),
      client_Do = (\<lambda>log req.
        Inr \<lparr>StatusCode = (if Method req = ''POST'' then 201
                            else if log = [] then 200 else pr_code),
             RespBody = []\<rparr>),
      GITHUB_TOKEN = ''t'',
      range_order = (\<lambda>ks. ks),
      ioutil_ReadFile = (\<lambda>p. Inl (Error ''no such file''))\<rparr>"

definition json_request :: "string \<Rightarrow> Request" where
  "json_request j = \<lparr>ContentType = ''application/json'',
     ParseForm = Inr [], ReadAll_Body = Inr j\<rparr>"

definition form_request :: "string \<Rightarrow> Request" where
  "form_request j = \<lparr>ContentType = ''application/x-www-form-urlencoded'',
     ParseForm = Inr [(''payload'', [j])], ReadAll_Body = Inr []\<rparr>"

definition bad_form_request :: Request where
  "bad_form_request = \<lparr>ContentType = ''application/x-www-form-urlencoded'',
     ParseForm = Inl (Error ''invalid URL escape''), ReadAll_Body = Inr []\<rparr>"

definition unreadable_request :: Request where
  "unreadable_request = \<lparr>ContentType = ''application/json'',
     ParseForm = Inr [], ReadAll_Body = Inl (Error ''unexpected EOF'')\<rparr>"

section \<open>Properties of the validator\<close>

lemma validatePR_forbidden:
  "\<exists>f \<in> set files. Filename f = ''forbidden.txt'' \<Longrightarrow> validatePR v files = False"
  by (induction files) auto

lemma validatePR_MainGo_False: "validatePR MainGo files = False"
  by (induction files) auto

lemma validatePR_Part000_iff:
  "validatePR Part000 files = (\<forall>f \<in> set files. Filename f \<noteq> ''forbidden.txt'')"
  by (induction files) auto

lemma validatePR_filenames:
  "map Filename fs = map Filename gs \<Longrightarrow> validatePR v fs = validatePR v gs"
proof (induction fs arbitrary: gs)
  case Nil
  then show ?case by simp
next
  case (Cons f fs)
  then obtain g gs' where gs: "gs = g # gs'" by (cases gs) auto
  with Cons.prems have "Filename f = Filename g" and "map Filename fs = map Filename gs'"
    by simp_all
  with Cons.IH [of gs'] gs show ?case by simp
qed

text \<open>
  C1. For every list of changed files, \<open>validatePR\<close> returns the fail outcome if some
  file is named \<^verbatim>\<open>forbidden.txt\<close> and the pass outcome otherwise; in particular it
  passes on the list holding only \<^verbatim>\<open>ok.txt\<close> and on the empty list. The second variant
  does so (\<open>validatePR_Part000_iff\<close>). The \<^verbatim>\<open>main.go\<close> variant does not: its last line
  returns \<^verbatim>\<open>false\<close>, so it fails on both of these lists.
\<close>

theorem validatePR_MainGo_fails_without_forbidden:
  "validatePR MainGo [ok_file] = False \<and> validatePR MainGo [] = False"
  by (simp add: ok_file_def file_named_def)

text \<open>
  C5. The two variants of \<open>validatePR\<close> agree on every file list that holds a file named
  \<^verbatim>\<open>forbidden.txt\<close> (both fail) and disagree on every other list: there the
  \<^verbatim>\<open>main.go\<close> variant fails and the second variant passes.
\<close>

theorem validatePR_variants:
  "(if \<exists>f \<in> set files. Filename f = ''forbidden.txt''
    then validatePR MainGo files = False \<and> validatePR Part000 files = False
    else validatePR MainGo files = False \<and> validatePR Part000 files = True)"
  by (simp add: validatePR_MainGo_False validatePR_Part000_iff)

theorem validatePR_variants_witness:
  "(\<exists>f \<in> set [ok_file, forbidden_file]. Filename f = ''forbidden.txt'')
   \<and> validatePR MainGo [ok_file, forbidden_file] = False
   \<and> validatePR Part000 [ok_file, forbidden_file] = False
   \<and> \<not> (\<exists>f \<in> set [ok_file]. Filename f = ''forbidden.txt'')
   \<and> validatePR MainGo [ok_file] = False
   \<and> validatePR Part000 [ok_file] = True"
proof -
  have h1: "\<exists>f \<in> set [ok_file, forbidden_file]. Filename f = ''forbidden.txt''"
    by (simp add: forbidden_file_def file_named_def)
  have h2: "\<not> (\<exists>f \<in> set [ok_file]. Filename f = ''forbidden.txt'')"
    by (simp add: ok_file_def file_named_def)
  from h1 validatePR_variants [of "[ok_file, forbidden_file]"]
  have c1: "validatePR MainGo [ok_file, forbidden_file] = False
            \<and> validatePR Part000 [ok_file, forbidden_file] = False"
    by (simp only: if_True)
  from h2 validatePR_variants [of "[ok_file]"]
  have c2: "validatePR MainGo [ok_file] = False \<and> validatePR Part000 [ok_file] = True"
    by (simp only: if_False)
  from h1 c1 h2 c2 show ?thesis by blast
qed

text \<open>
  C10. \<open>validatePR\<close> depends only on the \<open>Filename\<close> field of each file: two file
  lists of equal length whose files have pairwise equal names get the same outcome,
  whatever their other fields hold.
\<close>

theorem validatePR_depends_on_filenames_only:
  assumes "length fs = length gs"
    and "\<forall>i < length fs. Filename (fs ! i) = Filename (gs ! i)"
  shows "validatePR v fs = validatePR v gs"
proof -
  from assms have "map Filename fs = map Filename gs"
    by (simp add: list_eq_iff_nth_eq)
  then show ?thesis by (rule validatePR_filenames)
qed

theorem validatePR_depends_on_filenames_only_witness:
  "length [forbidden_file, ok_file]
     = length [forbidden_file\<lparr>Additions := 3, Patch := ''@@''\<rparr>, ok_file\<lparr>Status := ''added''\<rparr>]
   \<and> Filename forbidden_file = Filename (forbidden_file\<lparr>Additions := 3, Patch := ''@@''\<rparr>)
   \<and> Filename ok_file = Filename (ok_file\<lparr>Status := ''added''\<rparr>)
   \<and> validatePR Part000 [forbidden_file, ok_file]
       = validatePR Part000 [forbidden_file\<lparr>Additions := 3, Patch := ''@@''\<rparr>,
                             ok_file\<lparr>Status := ''added''\<rparr>]"
proof -
  let ?fs = "[forbidden_file, ok_file]"
  let ?gs = "[forbidden_file\<lparr>Additions := 3, Patch := ''@@''\<rparr>, ok_file\<lparr>Status := ''added''\<rparr>]"
  have h1: "length ?fs = length ?gs" by simp
  have h2: "\<forall>i < length ?fs. Filename (?fs ! i) = Filename (?gs ! i)"
    by (simp add: less_Suc_eq nth_Cons')
  from validatePR_depends_on_filenames_only [OF h1 h2, of Part000]
  show ?thesis by simp
qed

section \<open>Properties of the handler\<close>

subsection \<open>The response writer\<close>

lemma status_code_Fprintf: "status_code (Fprintf s w) = status_code w"
  by (simp add: Fprintf_def WriteHeader_def status_code_def Let_def split: option.splits)

lemma written_Fprintf: "written (Fprintf s w) = written w @ s"
  by (simp add: Fprintf_def WriteHeader_def Let_def split: option.splits)

lemma Fprintf_new_writer: "Fprintf s new_writer = \<lparr>header_code = Some 200, written = s\<rparr>"
  by (simp add: Fprintf_def WriteHeader_def new_writer_def)

lemma status_code_new_writer: "status_code new_writer = 200"
  by (simp add: status_code_def new_writer_def)

lemma status_code_http_Error: "status_code (http_Error msg code new_writer) = code"
  by (simp add: http_Error_def status_code_Fprintf)
     (simp add: WriteHeader_def status_code_def new_writer_def)

lemma status_code_foldl_Fprintf:
  "status_code (foldl (\<lambda>w x. Fprintf (g x) w) w xs) = status_code w"
  by (induction xs arbitrary: w) (simp_all add: status_code_Fprintf)

lemma written_foldl_Fprintf:
  "written (foldl (\<lambda>w x. Fprintf (g x) w) w xs) = written w @ concat (map g xs)"
  by (induction xs arbitrary: w) (simp_all add: written_Fprintf)

lemma status_code_report_app: "status_code (report_app w app) = status_code w"
  by (simp add: report_app_def status_code_Fprintf)

lemma status_code_foldl_report_app: "status_code (foldl report_app w apps) = status_code w"
  by (induction apps arbitrary: w) (simp_all add: status_code_report_app)

lemma status_code_enhanced_report: "status_code (enhanced_report v e files w) = status_code w"
  by (cases v)
     (simp_all add: enhanced_report_def Let_def status_code_Fprintf status_code_foldl_Fprintf
        status_code_foldl_report_app split: prod.splits)

subsection \<open>The action filter\<close>

lemma accepted_action_MainGo: "accepted_action MainGo a \<longleftrightarrow> a = ''opened''"
  by (simp add: accepted_action_def)

lemma accepted_action_Part000:
  "accepted_action Part000 a \<longleftrightarrow> a = ''opened'' \<or> a = ''reopened''"
  by (simp add: accepted_action_def)

subsection \<open>The handler, path by path\<close>

lemma handler_status:
  "status_code (response (prWebhookHandler v e r)) =
     (case read_payload r new_writer of Inl w \<Rightarrow> status_code w | Inr p \<Rightarrow> 200)"
  by (simp add: prWebhookHandler_def Let_def status_code_Fprintf status_code_foldl_Fprintf
        status_code_enhanced_report status_code_new_writer
      split: sum.splits prod.splits)

lemma handler_fetch_failed:
  assumes "read_payload r new_writer = Inr payload"
    and "json_Unmarshal_event e payload = Inr ev"
    and "accepted_action v (Action ev)"
    and "n = (if PullRequest_Number ev = 0 then Number ev else PullRequest_Number ev)"
    and "n \<noteq> 0"
    and "fetchPRFiles e (Repository_Owner_Login ev) (Repository_Name ev) n [] = (Inl err, log)"
  shows "api_calls (prWebhookHandler v e r)
           = [FetchPRFiles (Repository_Owner_Login ev) (Repository_Name ev) n]"
  using assms by (simp add: prWebhookHandler_def Let_def split: if_splits)

lemma handler_fetched_calls:
  assumes "read_payload r new_writer = Inr payload"
    and "json_Unmarshal_event e payload = Inr ev"
    and "accepted_action v (Action ev)"
    and "n = (if PullRequest_Number ev = 0 then Number ev else PullRequest_Number ev)"
    and "n \<noteq> 0"
    and "fetchPRFiles e (Repository_Owner_Login ev) (Repository_Name ev) n [] = (Inr files, log)"
  shows "api_calls (prWebhookHandler v e r) =
           [FetchPRFiles (Repository_Owner_Login ev) (Repository_Name ev) n,
            UpdatePRStatus (Repository_Owner_Login ev) (Repository_Name ev) n
              (if \<not> validatePR v files then ''failure'' else ''success'')
              (if \<not> validatePR v files then ''PR validation failed.''
               else ''PR validation passed.'')]
           @ (if \<not> validatePR v files
              then [ClosePullRequest (Repository_Owner_Login ev) (Repository_Name ev) n]
              else [])"
  using assms by (simp add: prWebhookHandler_def Let_def split: if_splits)

lemma handler_fetched_log:
  assumes "read_payload r new_writer = Inr payload"
    and "json_Unmarshal_event e payload = Inr ev"
    and "accepted_action v (Action ev)"
    and "n = (if PullRequest_Number ev = 0 then Number ev else PullRequest_Number ev)"
    and "n \<noteq> 0"
    and "fetchPRFiles e (Repository_Owner_Login ev) (Repository_Name ev) n [] = (Inr files, log)"
    and "log' = snd (updatePRStatus e (Repository_Owner_Login ev) (Repository_Name ev) n
              (if \<not> validatePR v files then ''failure'' else ''success'')
              (if \<not> validatePR v files then ''PR validation failed.''
               else ''PR validation passed.'') log)"
  shows "http_log (prWebhookHandler v e r) =
           (if \<not> validatePR v files
            then snd (closePullRequest e (Repository_Owner_Login ev) (Repository_Name ev) n log')
            else log')"
  using assms by (simp add: prWebhookHandler_def Let_def split: if_splits)

lemma handler_fetched_body:
  assumes "read_payload r new_writer = Inr payload"
    and "json_Unmarshal_event e payload = Inr ev"
    and "accepted_action v (Action ev)"
    and "n = (if PullRequest_Number ev = 0 then Number ev else PullRequest_Number ev)"
    and "n \<noteq> 0"
    and "fetchPRFiles e (Repository_Owner_Login ev) (Repository_Name ev) n [] = (Inr files, log)"
  shows "written (response (prWebhookHandler v e r)) =
           written (enhanced_report v e files new_writer)
           @ ''PR #'' @ fmt_d n @ '' validation complete. Status: ''
           @ (if \<not> validatePR v files then ''failure'' else ''success'') @ nl
           @ ''Files changed in PR:'' @ nl
           @ concat (map file_line files)"
  using assms
  by (simp add: prWebhookHandler_def Let_def written_Fprintf written_foldl_Fprintf
      split: if_splits)

subsection \<open>A concrete run\<close>

text \<open>The request that \<open>fetchPRFiles\<close> sends for pull request 42 of \<^verbatim>\<open>acme/repo\<close>.\<close>

lemma fetch_acme_repo_42:
  "fetchPRFiles (demo_env files code) ''acme'' ''repo'' 42 [] =
     (Inr files,
      [\<lparr>Method = ''GET'', URL = ''https://api.github.com/repos/acme/repo/pulls/42/files'',
        Header = [(''Accept'', ''application/vnd.github.v3+json'')], Body = None\<rparr>])"
proof -
  have "fmt_d 42 = ''42''"
    by (simp add: fmt_d_def digits.simps digit_def)
  then show ?thesis
    by (simp add: fetchPRFiles_def demo_env_def)
qed

section \<open>The claims about the handler\<close>

text \<open>
  C2, as the specification states it: every inbound request is answered with status 200.
  The handler answers a form-encoded request whose form does not parse with
  \<^verbatim>\<open>http.StatusBadRequest\<close>.
\<close>

theorem unparsable_form_gets_400:
  "status_code (response (prWebhookHandler MainGo (demo_env [] 200) bad_form_request)) = 400"
  by (simp add: prWebhookHandler_def read_payload_def bad_form_request_def
      status_code_http_Error)

text \<open>
  C2, amended. The handler answers with status 200, with two exceptions: a form-encoded
  request whose form does not parse gets status 400, and any other request whose body
  cannot be read gets status 500. A payload that is not a valid event still gets 200.
\<close>

theorem handler_status_code:
  "status_code (response (prWebhookHandler v e r)) =
     (if ContentType r = ''application/x-www-form-urlencoded''
      then (case ParseForm r of Inl err \<Rightarrow> 400 | Inr form \<Rightarrow> 200)
      else (case ReadAll_Body r of Inl err \<Rightarrow> 500 | Inr payload \<Rightarrow> 200))"
  by (simp add: handler_status read_payload_def status_code_http_Error split: sum.splits)

theorem handler_status_code_witness:
  "status_code (response (prWebhookHandler Part000 (demo_env [] 200) unreadable_request)) = 500
   \<and> status_code (response (prWebhookHandler Part000 (demo_env [] 200)
                               (json_request ''not json''))) = 200
   \<and> status_code (response (prWebhookHandler Part000 (demo_env [ok_file] 200)
                               (form_request ''opened''))) = 200"
proof -
  from handler_status_code [of Part000 "demo_env [] 200" unreadable_request]
  have c1: "status_code (response (prWebhookHandler Part000 (demo_env [] 200)
                                     unreadable_request)) = 500"
    by (simp add: unreadable_request_def)
  from handler_status_code [of Part000 "demo_env [] 200" "json_request ''not json''"]
  have c2: "status_code (response (prWebhookHandler Part000 (demo_env [] 200)
                                     (json_request ''not json''))) = 200"
    by (simp add: json_request_def)
  from handler_status_code [of Part000 "demo_env [ok_file] 200" "form_request ''opened''"]
  have c3: "status_code (response (prWebhookHandler Part000 (demo_env [ok_file] 200)
                                     (form_request ''opened''))) = 200"
    by (simp add: form_request_def)
  from c1 c2 c3 show ?thesis by simp
qed

text \<open>
  C3. For every accepted event whose file fetch succeeds and whose files fail the
  validation, the handler calls \<open>updatePRStatus\<close> once, with state \<^verbatim>\<open>failure\<close> and
  description \<^verbatim>\<open>PR validation failed.\<close>, and then \<open>closePullRequest\<close> once, for the
  same pull request; the requests sent are those of these two calls, in this order.
\<close>

theorem failed_validation_sets_failure_then_closes:
  assumes "read_payload r new_writer = Inr payload"
    and "json_Unmarshal_event e payload = Inr ev"
    and "accepted_action v (Action ev)"
    and "n = (if PullRequest_Number ev = 0 then Number ev else PullRequest_Number ev)"
    and "n \<noteq> 0"
    and "fetchPRFiles e (Repository_Owner_Login ev) (Repository_Name ev) n [] = (Inr files, log)"
    and "validatePR v files = False"
  shows "api_calls (prWebhookHandler v e r) =
           [FetchPRFiles (Repository_Owner_Login ev) (Repository_Name ev) n,
            UpdatePRStatus (Repository_Owner_Login ev) (Repository_Name ev) n
              ''failure'' ''PR validation failed.'',
            ClosePullRequest (Repository_Owner_Login ev) (Repository_Name ev) n]
         \<and> http_log (prWebhookHandler v e r) =
             snd (closePullRequest e (Repository_Owner_Login ev) (Repository_Name ev) n
                   (snd (updatePRStatus e (Repository_Owner_Login ev) (Repository_Name ev) n
                          ''failure'' ''PR validation failed.'' log)))"
proof -
  from assms(7) have nv: "\<not> validatePR v files" by simp
  from handler_fetched_calls [OF assms(1-6)] nv
  have calls: "api_calls (prWebhookHandler v e r) =
           [FetchPRFiles (Repository_Owner_Login ev) (Repository_Name ev) n,
            UpdatePRStatus (Repository_Owner_Login ev) (Repository_Name ev) n
              ''failure'' ''PR validation failed.'',
            ClosePullRequest (Repository_Owner_Login ev) (Repository_Name ev) n]"
    by simp
  from handler_fetched_log [OF assms(1-6) refl] nv
  have "http_log (prWebhookHandler v e r) =
             snd (closePullRequest e (Repository_Owner_Login ev) (Repository_Name ev) n
                   (snd (updatePRStatus e (Repository_Owner_Login ev) (Repository_Name ev) n
                          ''failure'' ''PR validation failed.'' log)))"
    by simp
  with calls show ?thesis by simp
qed

theorem failed_validation_sets_failure_then_closes_witness:
  "validatePR MainGo [forbidden_file] = False
   \<and> api_calls (prWebhookHandler MainGo (demo_env [forbidden_file] 200) (json_request ''opened''))
       = [FetchPRFiles ''acme'' ''repo'' 42,
          UpdatePRStatus ''acme'' ''repo'' 42 ''failure'' ''PR validation failed.'',
          ClosePullRequest ''acme'' ''repo'' 42]"
proof -
  let ?e = "demo_env [forbidden_file] 200"
  have h1: "read_payload (json_request ''opened'') new_writer = Inr ''opened''"
    by (simp add: read_payload_def json_request_def)
  have h2: "json_Unmarshal_event ?e ''opened'' = Inr opened_event"
    by (simp add: demo_env_def)
  have h3: "accepted_action MainGo (Action opened_event)"
    by (simp add: accepted_action_def opened_event_def)
  have h4: "42 = (if PullRequest_Number opened_event = 0 then Number opened_event
                  else PullRequest_Number opened_event)"
    by (simp add: opened_event_def)
  have h5: "(42::int) \<noteq> 0" by simp
  have h6: "fetchPRFiles ?e (Repository_Owner_Login opened_event)
              (Repository_Name opened_event) 42 [] =
            (Inr [forbidden_file],
             [\<lparr>Method = ''GET'', URL = ''https://api.github.com/repos/acme/repo/pulls/42/files'',
               Header = [(''Accept'', ''application/vnd.github.v3+json'')], Body = None\<rparr>])"
    by (simp add: fetch_acme_repo_42 opened_event_def)
  have h7: "validatePR MainGo [forbidden_file] = False"
    by (simp add: forbidden_file_def file_named_def)
  from failed_validation_sets_failure_then_closes [OF h1 h2 h3 h4 h5 h6 h7]
  have "api_calls (prWebhookHandler MainGo ?e (json_request ''opened''))
       = [FetchPRFiles ''acme'' ''repo'' 42,
          UpdatePRStatus ''acme'' ''repo'' 42 ''failure'' ''PR validation failed.'',
          ClosePullRequest ''acme'' ''repo'' 42]"
    by (simp add: opened_event_def)
  with h7 show ?thesis by simp
qed

text \<open>
  C4. For every accepted event whose file fetch succeeds and whose files pass the
  validation, the handler calls \<open>updatePRStatus\<close> once, with state \<^verbatim>\<open>success\<close>, and
  does not call \<open>closePullRequest\<close>; the requests sent are those of the fetch and of
  this one call. (In the \<^verbatim>\<open>main.go\<close> variant no list of files passes.)
\<close>

theorem passed_validation_sets_success_without_close:
  assumes "read_payload r new_writer = Inr payload"
    and "json_Unmarshal_event e payload = Inr ev"
    and "accepted_action v (Action ev)"
    and "n = (if PullRequest_Number ev = 0 then Number ev else PullRequest_Number ev)"
    and "n \<noteq> 0"
    and "fetchPRFiles e (Repository_Owner_Login ev) (Repository_Name ev) n [] = (Inr files, log)"
    and "validatePR v files = True"
  shows "api_calls (prWebhookHandler v e r) =
           [FetchPRFiles (Repository_Owner_Login ev) (Repository_Name ev) n,
            UpdatePRStatus (Repository_Owner_Login ev) (Repository_Name ev) n
              ''success'' ''PR validation passed.'']
         \<and> http_log (prWebhookHandler v e r) =
             snd (updatePRStatus e (Repository_Owner_Login ev) (Repository_Name ev) n
                    ''success'' ''PR validation passed.'' log)"
proof -
  from assms(7) have ok: "validatePR v files" by simp
  from handler_fetched_calls [OF assms(1-6)] ok
  have calls: "api_calls (prWebhookHandler v e r) =
           [FetchPRFiles (Repository_Owner_Login ev) (Repository_Name ev) n,
            UpdatePRStatus (Repository_Owner_Login ev) (Repository_Name ev) n
              ''success'' ''PR validation passed.'']"
    by simp
  from handler_fetched_log [OF assms(1-6) refl] ok
  have "http_log (prWebhookHandler v e r) =
             snd (updatePRStatus e (Repository_Owner_Login ev) (Repository_Name ev) n
                    ''success'' ''PR validation passed.'' log)"
    by simp
  with calls show ?thesis by simp
qed

theorem passed_validation_sets_success_without_close_witness:
  "validatePR Part000 [ok_file] = True
   \<and> api_calls (prWebhookHandler Part000 (demo_env [ok_file] 200) (form_request ''reopened''))
       = [FetchPRFiles ''acme'' ''repo'' 42,
          UpdatePRStatus ''acme'' ''repo'' 42 ''success'' ''PR validation passed.'']"
proof -
  let ?e = "demo_env [ok_file] 200"
  let ?ev = "opened_event\<lparr>Action := ''reopened''\<rparr>"
  have h1: "read_payload (form_request ''reopened'') new_writer = Inr ''reopened''"
    by (simp add: read_payload_def form_request_def FormValue_def)
  have h2: "json_Unmarshal_event ?e ''reopened'' = Inr ?ev"
    by (simp add: demo_env_def)
  have h3: "accepted_action Part000 (Action ?ev)"
    by (simp add: accepted_action_def)
  have h4: "42 = (if PullRequest_Number ?ev = 0 then Number ?ev else PullRequest_Number ?ev)"
    by (simp add: opened_event_def)
  have h5: "(42::int) \<noteq> 0" by simp
  have h6: "fetchPRFiles ?e (Repository_Owner_Login ?ev) (Repository_Name ?ev) 42 [] =
            (Inr [ok_file],
             [\<lparr>Method = ''GET'', URL = ''https://api.github.com/repos/acme/repo/pulls/42/files'',
               Header = [(''Accept'', ''application/vnd.github.v3+json'')], Body = None\<rparr>])"
    by (simp add: fetch_acme_repo_42 opened_event_def)
  have h7: "validatePR Part000 [ok_file] = True"
    by (simp add: ok_file_def file_named_def)
  from passed_validation_sets_success_without_close [OF h1 h2 h3 h4 h5 h6 h7]
  have "api_calls (prWebhookHandler Part000 ?e (form_request ''reopened''))
       = [FetchPRFiles ''acme'' ''repo'' 42,
          UpdatePRStatus ''acme'' ''repo'' 42 ''success'' ''PR validation passed.'']"
    by (simp add: opened_event_def)
  with h7 show ?thesis by simp
qed

text \<open>
  C6. For every decoded event whose action is not accepted by the variant (anything but
  \<^verbatim>\<open>opened\<close> for \<^verbatim>\<open>main.go\<close>; anything but \<^verbatim>\<open>opened\<close> and \<^verbatim>\<open>reopened\<close> for the second
  variant), the handler answers with a body that holds the action and makes no
  outbound call: no function of the API is called and no request is sent.
\<close>

theorem ignored_action_makes_no_call:
  assumes "read_payload r new_writer = Inr payload"
    and "json_Unmarshal_event e payload = Inr ev"
    and "(v = MainGo \<and> Action ev \<noteq> ''opened'')
         \<or> (v = Part000 \<and> Action ev \<noteq> ''opened'' \<and> Action ev \<noteq> ''reopened'')"
  shows "prWebhookHandler v e r =
           \<lparr>response = \<lparr>header_code = Some 200,
                         written = ''Ignoring PR event with action: '' @ Action ev\<rparr>,
            api_calls = [], http_log = []\<rparr>"
proof -
  from assms(3) have "\<not> accepted_action v (Action ev)"
    by (auto simp add: accepted_action_def)
  with assms(1,2) show ?thesis
    by (simp add: prWebhookHandler_def Fprintf_new_writer)
qed

theorem ignored_action_makes_no_call_witness:
  "prWebhookHandler MainGo (demo_env [forbidden_file] 200) (json_request ''reopened'') =
     \<lparr>response = \<lparr>header_code = Some 200,
                   written = ''Ignoring PR event with action: reopened''\<rparr>,
      api_calls = [], http_log = []\<rparr>
   \<and> prWebhookHandler Part000 (demo_env [forbidden_file] 200) (json_request ''closed'') =
     \<lparr>response = \<lparr>header_code = Some 200,
                   written = ''Ignoring PR event with action: closed''\<rparr>,
      api_calls = [], http_log = []\<rparr>"
proof -
  let ?e = "demo_env [forbidden_file] 200"
  have p1: "read_payload (json_request ''reopened'') new_writer = Inr ''reopened''"
    by (simp add: read_payload_def json_request_def)
  have d1: "json_Unmarshal_event ?e ''reopened'' = Inr (opened_event\<lparr>Action := ''reopened''\<rparr>)"
    by (simp add: demo_env_def)
  have a1: "(MainGo = MainGo \<and> Action (opened_event\<lparr>Action := ''reopened''\<rparr>) \<noteq> ''opened'')
            \<or> (MainGo = Part000 \<and> Action (opened_event\<lparr>Action := ''reopened''\<rparr>) \<noteq> ''opened''
                \<and> Action (opened_event\<lparr>Action := ''reopened''\<rparr>) \<noteq> ''reopened'')"
    by simp
  have p2: "read_payload (json_request ''closed'') new_writer = Inr ''closed''"
    by (simp add: read_payload_def json_request_def)
  have d2: "json_Unmarshal_event ?e ''closed'' = Inr (opened_event\<lparr>Action := ''closed''\<rparr>)"
    by (simp add: demo_env_def)
  have a2: "(Part000 = MainGo \<and> Action (opened_event\<lparr>Action := ''closed''\<rparr>) \<noteq> ''opened'')
            \<or> (Part000 = Part000 \<and> Action (opened_event\<lparr>Action := ''closed''\<rparr>) \<noteq> ''opened''
                \<and> Action (opened_event\<lparr>Action := ''closed''\<rparr>) \<noteq> ''reopened'')"
    by simp
  from ignored_action_makes_no_call [OF p1 d1 a1]
  have c1: "prWebhookHandler MainGo ?e (json_request ''reopened'') =
     \<lparr>response = \<lparr>header_code = Some 200,
                   written = ''Ignoring PR event with action: reopened''\<rparr>,
      api_calls = [], http_log = []\<rparr>"
    by simp
  from ignored_action_makes_no_call [OF p2 d2 a2]
  have c2: "prWebhookHandler Part000 ?e (json_request ''closed'') =
     \<lparr>response = \<lparr>header_code = Some 200,
                   written = ''Ignoring PR event with action: closed''\<rparr>,
      api_calls = [], http_log = []\<rparr>"
    by simp
  from c1 c2 show ?thesis by (rule conjI)
qed

text \<open>
  C7. For every accepted event, the pull-request number is \<^verbatim>\<open>pull_request.number\<close> when
  that is not 0, and the top-level \<^verbatim>\<open>number\<close> otherwise. When both are 0 the handler
  answers \<^verbatim>\<open>No PR number found\<close> and makes no outbound call; otherwise its first call
  fetches the files of the pull request with that number, and every call it makes
  carries that number.
\<close>

theorem pr_number_resolution:
  assumes "read_payload r new_writer = Inr payload"
    and "json_Unmarshal_event e payload = Inr ev"
    and "accepted_action v (Action ev)"
    and "n = (if PullRequest_Number ev \<noteq> 0 then PullRequest_Number ev else Number ev)"
  shows "if PullRequest_Number ev = 0 \<and> Number ev = 0
         then prWebhookHandler v e r =
                \<lparr>response = \<lparr>header_code = Some 200, written = ''No PR number found''\<rparr>,
                 api_calls = [], http_log = []\<rparr>
         else take 1 (api_calls (prWebhookHandler v e r))
                = [FetchPRFiles (Repository_Owner_Login ev) (Repository_Name ev) n]
              \<and> list_all (\<lambda>c. call_number c = n) (api_calls (prWebhookHandler v e r))"
proof (cases "PullRequest_Number ev = 0 \<and> Number ev = 0")
  case True
  with assms show ?thesis
    by (simp add: prWebhookHandler_def Fprintf_new_writer)
next
  case False
  with assms(4) have n: "n = (if PullRequest_Number ev = 0 then Number ev
                              else PullRequest_Number ev)" and nz: "n \<noteq> 0"
    by auto
  obtain res log where
    f: "fetchPRFiles e (Repository_Owner_Login ev) (Repository_Name ev) n [] = (res, log)"
    by (cases "fetchPRFiles e (Repository_Owner_Login ev) (Repository_Name ev) n []")
  have "take 1 (api_calls (prWebhookHandler v e r))
                = [FetchPRFiles (Repository_Owner_Login ev) (Repository_Name ev) n]
              \<and> list_all (\<lambda>c. call_number c = n) (api_calls (prWebhookHandler v e r))"
  proof (cases res)
    case (Inl err)
    with f handler_fetch_failed [OF assms(1-3) n nz] show ?thesis by simp
  next
    case (Inr files)
    with f handler_fetched_calls [OF assms(1-3) n nz] show ?thesis by simp
  qed
  with False show ?thesis by (simp only: if_False)
qed

theorem pr_number_resolution_witness:
  "prWebhookHandler MainGo (demo_env [ok_file] 200) (json_request ''nonumber'') =
     \<lparr>response = \<lparr>header_code = Some 200, written = ''No PR number found''\<rparr>,
      api_calls = [], http_log = []\<rparr>
   \<and> take 1 (api_calls (prWebhookHandler MainGo (demo_env [ok_file] 200)
                          (json_request ''toplevel'')))
       = [FetchPRFiles ''acme'' ''repo'' 7]
   \<and> take 1 (api_calls (prWebhookHandler MainGo (demo_env [ok_file] 200)
                          (json_request ''opened'')))
       = [FetchPRFiles ''acme'' ''repo'' 42]"
proof -
  let ?e = "demo_env [ok_file] 200"
  let ?ev0 = "opened_event\<lparr>PullRequest_Number := 0\<rparr>"
  let ?ev7 = "opened_event\<lparr>PullRequest_Number := 0, Number := 7\<rparr>"
  have p0: "read_payload (json_request ''nonumber'') new_writer = Inr ''nonumber''"
    by (simp add: read_payload_def json_request_def)
  have d0: "json_Unmarshal_event ?e ''nonumber'' = Inr ?ev0"
    by (simp add: demo_env_def)
  have a0: "accepted_action MainGo (Action ?ev0)"
    by (simp add: accepted_action_def opened_event_def)
  have n0: "0 = (if PullRequest_Number ?ev0 \<noteq> 0 then PullRequest_Number ?ev0 else Number ?ev0)"
    by (simp add: opened_event_def)
  from pr_number_resolution [OF p0 d0 a0 n0]
  have c0: "prWebhookHandler MainGo ?e (json_request ''nonumber'') =
     \<lparr>response = \<lparr>header_code = Some 200, written = ''No PR number found''\<rparr>,
      api_calls = [], http_log = []\<rparr>"
    by (simp add: opened_event_def)
  have p7: "read_payload (json_request ''toplevel'') new_writer = Inr ''toplevel''"
    by (simp add: read_payload_def json_request_def)
  have d7: "json_Unmarshal_event ?e ''toplevel'' = Inr ?ev7"
    by (simp add: demo_env_def)
  have a7: "accepted_action MainGo (Action ?ev7)"
    by (simp add: accepted_action_def opened_event_def)
  have n7: "7 = (if PullRequest_Number ?ev7 \<noteq> 0 then PullRequest_Number ?ev7 else Number ?ev7)"
    by (simp add: opened_event_def)
  from pr_number_resolution [OF p7 d7 a7 n7]
  have c7: "take 1 (api_calls (prWebhookHandler MainGo ?e (json_request ''toplevel'')))
       = [FetchPRFiles ''acme'' ''repo'' 7]"
    by (simp add: opened_event_def)
  have p42: "read_payload (json_request ''opened'') new_writer = Inr ''opened''"
    by (simp add: read_payload_def json_request_def)
  have d42: "json_Unmarshal_event ?e ''opened'' = Inr opened_event"
    by (simp add: demo_env_def)
  have a42: "accepted_action MainGo (Action opened_event)"
    by (simp add: accepted_action_def opened_event_def)
  have n42: "42 = (if PullRequest_Number opened_event \<noteq> 0 then PullRequest_Number opened_event
                   else Number opened_event)"
    by (simp add: opened_event_def)
  from pr_number_resolution [OF p42 d42 a42 n42]
  have c42: "take 1 (api_calls (prWebhookHandler MainGo ?e (json_request ''opened'')))
       = [FetchPRFiles ''acme'' ''repo'' 42]"
    by (simp add: opened_event_def)
  from c0 c7 c42 show ?thesis by simp
qed

text \<open>
  C8. A form-encoded request whose \<^verbatim>\<open>payload\<close> field holds the document \<open>j\<close> and a
  request with another content type whose body is \<open>j\<close> hand the same bytes to
  \<^verbatim>\<open>json.Unmarshal\<close>, so they decode to the same event, and the handler does the same
  for both: the same response, the same calls, the same requests.
\<close>

theorem form_and_json_payload_agree:
  assumes "ContentType rf = ''application/x-www-form-urlencoded''"
    and "ParseForm rf = Inr form"
    and "FormValue form ''payload'' = j"
    and "ContentType rj \<noteq> ''application/x-www-form-urlencoded''"
    and "ReadAll_Body rj = Inr j"
  shows "read_payload rf new_writer = Inr j
         \<and> read_payload rj new_writer = Inr j
         \<and> prWebhookHandler v e rf = prWebhookHandler v e rj"
proof -
  from assms(1-3) have f: "read_payload rf new_writer = Inr j"
    by (simp add: read_payload_def)
  from assms(4,5) have b: "read_payload rj new_writer = Inr j"
    by (simp add: read_payload_def)
  have "prWebhookHandler v e rf = prWebhookHandler v e rj"
    unfolding prWebhookHandler_def f b ..
  with f b show ?thesis by simp
qed

theorem form_and_json_payload_agree_witness:
  "read_payload (form_request ''opened'') new_writer = Inr ''opened''
   \<and> read_payload (json_request ''opened'') new_writer = Inr ''opened''
   \<and> prWebhookHandler Part000 (demo_env [forbidden_file] 200) (form_request ''opened'')
       = prWebhookHandler Part000 (demo_env [forbidden_file] 200) (json_request ''opened'')"
proof -
  have h1: "ContentType (form_request ''opened'') = ''application/x-www-form-urlencoded''"
    by (simp add: form_request_def)
  have h2: "ParseForm (form_request ''opened'') = Inr [(''payload'', [''opened''])]"
    by (simp add: form_request_def)
  have h3: "FormValue [(''payload'', [''opened''])] ''payload'' = ''opened''"
    by (simp add: FormValue_def)
  have h4: "ContentType (json_request ''opened'') \<noteq> ''application/x-www-form-urlencoded''"
    by (simp add: json_request_def)
  have h5: "ReadAll_Body (json_request ''opened'') = Inr ''opened''"
    by (simp add: json_request_def)
  show ?thesis
    by (rule form_and_json_payload_agree [OF h1 h2 h3 h4 h5])
qed

text \<open>
  C9. When \<open>updatePRStatus\<close> returns an error, the handler goes on: it still calls
  \<open>closePullRequest\<close> when the validation failed (and sends what that call sends), and
  it still writes the summary that starts with \<^verbatim>\<open>PR #N validation complete\<close>, with
  status 200.
\<close>

theorem status_update_error_does_not_abort:
  assumes "read_payload r new_writer = Inr payload"
    and "json_Unmarshal_event e payload = Inr ev"
    and "accepted_action v (Action ev)"
    and "n = (if PullRequest_Number ev = 0 then Number ev else PullRequest_Number ev)"
    and "n \<noteq> 0"
    and "fetchPRFiles e (Repository_Owner_Login ev) (Repository_Name ev) n [] = (Inr files, log)"
    and "updatePRStatus e (Repository_Owner_Login ev) (Repository_Name ev) n
           (if \<not> validatePR v files then ''failure'' else ''success'')
           (if \<not> validatePR v files then ''PR validation failed.'' else ''PR validation passed.'')
           log = (Some err, log')"
  shows "api_calls (prWebhookHandler v e r) =
           [FetchPRFiles (Repository_Owner_Login ev) (Repository_Name ev) n,
            UpdatePRStatus (Repository_Owner_Login ev) (Repository_Name ev) n
              (if \<not> validatePR v files then ''failure'' else ''success'')
              (if \<not> validatePR v files then ''PR validation failed.''
               else ''PR validation passed.'')]
           @ (if \<not> validatePR v files
              then [ClosePullRequest (Repository_Owner_Login ev) (Repository_Name ev) n]
              else [])
         \<and> http_log (prWebhookHandler v e r) =
             (if \<not> validatePR v files
              then snd (closePullRequest e (Repository_Owner_Login ev) (Repository_Name ev) n log')
              else log')
         \<and> written (response (prWebhookHandler v e r)) =
             written (enhanced_report v e files new_writer)
             @ ''PR #'' @ fmt_d n @ '' validation complete. Status: ''
             @ (if \<not> validatePR v files then ''failure'' else ''success'') @ nl
             @ ''Files changed in PR:'' @ nl
             @ concat (map file_line files)
         \<and> status_code (response (prWebhookHandler v e r)) = 200"
proof -
  from assms(7) have l: "log' = snd (updatePRStatus e (Repository_Owner_Login ev)
           (Repository_Name ev) n
           (if \<not> validatePR v files then ''failure'' else ''success'')
           (if \<not> validatePR v files then ''PR validation failed.'' else ''PR validation passed.'')
           log)"
    by simp
  have s: "status_code (response (prWebhookHandler v e r)) = 200"
    using assms(1) by (simp add: handler_status)
  from handler_fetched_calls [OF assms(1-6)] handler_fetched_log [OF assms(1-6) l]
    handler_fetched_body [OF assms(1-6)] s
  show ?thesis by (intro conjI)
qed

theorem status_update_error_does_not_abort_witness:
  "updatePRStatus (demo_env [forbidden_file] 404) ''acme'' ''repo'' 42
     ''failure'' ''PR validation failed.''
     [\<lparr>Method = ''GET'', URL = ''https://api.github.com/repos/acme/repo/pulls/42/files'',
       Header = [(''Accept'', ''application/vnd.github.v3+json'')], Body = None\<rparr>]
   = (Some (Error ''GitHub API error: ''),
      [\<lparr>Method = ''GET'', URL = ''https://api.github.com/repos/acme/repo/pulls/42/files'',
        Header = [(''Accept'', ''application/vnd.github.v3+json'')], Body = None\<rparr>,
       \<lparr>Method = ''GET'', URL = ''https://api.github.com/repos/acme/repo/pulls/42'',
        Header = [(''Authorization'', ''token t''),
                  (''Accept'', ''application/vnd.github.v3+json'')], Body = None\<rparr>])
   \<and> api_calls (prWebhookHandler MainGo (demo_env [forbidden_file] 404) (json_request ''opened''))
       = [FetchPRFiles ''acme'' ''repo'' 42,
          UpdatePRStatus ''acme'' ''repo'' 42 ''failure'' ''PR validation failed.'',
          ClosePullRequest ''acme'' ''repo'' 42]
   \<and> written (response (prWebhookHandler MainGo (demo_env [forbidden_file] 404)
                          (json_request ''opened'')))
       = ''PR #42 validation complete. Status: failure'' @ nl @ ''Files changed in PR:'' @ nl
         @ ''- forbidden.txt (additions: 0, deletions: 0, changes: 0)'' @ nl
   \<and> status_code (response (prWebhookHandler MainGo (demo_env [forbidden_file] 404)
                              (json_request ''opened''))) = 200"
proof -
  let ?e = "demo_env [forbidden_file] 404"
  let ?fetch = "\<lparr>Method = ''GET'', URL = ''https://api.github.com/repos/acme/repo/pulls/42/files'',
       Header = [(''Accept'', ''application/vnd.github.v3+json'')], Body = None\<rparr>"
  let ?get = "\<lparr>Method = ''GET'', URL = ''https://api.github.com/repos/acme/repo/pulls/42'',
        Header = [(''Authorization'', ''token t''),
                  (''Accept'', ''application/vnd.github.v3+json'')], Body = None\<rparr>"
  have d42: "fmt_d 42 = ''42''" and d0: "fmt_d 0 = ''0''"
    by (simp_all add: fmt_d_def digits.simps digit_def)
  have h1: "read_payload (json_request ''opened'') new_writer = Inr ''opened''"
    by (simp add: read_payload_def json_request_def)
  have h2: "json_Unmarshal_event ?e ''opened'' = Inr opened_event"
    by (simp add: demo_env_def)
  have h3: "accepted_action MainGo (Action opened_event)"
    by (simp add: accepted_action_def opened_event_def)
  have h4: "42 = (if PullRequest_Number opened_event = 0 then Number opened_event
                  else PullRequest_Number opened_event)"
    by (simp add: opened_event_def)
  have h5: "(42::int) \<noteq> 0" by simp
  have h6: "fetchPRFiles ?e (Repository_Owner_Login opened_event)
              (Repository_Name opened_event) 42 [] = (Inr [forbidden_file], [?fetch])"
    by (simp add: fetch_acme_repo_42 opened_event_def)
  have u: "updatePRStatus ?e ''acme'' ''repo'' 42 ''failure'' ''PR validation failed.'' [?fetch]
           = (Some (Error ''GitHub API error: ''), [?fetch, ?get])"
    by (simp add: updatePRStatus_def demo_env_def d42)
  have h7: "updatePRStatus ?e (Repository_Owner_Login opened_event)
              (Repository_Name opened_event) 42
              (if \<not> validatePR MainGo [forbidden_file] then ''failure'' else ''success'')
              (if \<not> validatePR MainGo [forbidden_file] then ''PR validation failed.''
               else ''PR validation passed.'') [?fetch]
            = (Some (Error ''GitHub API error: ''), [?fetch, ?get])"
    using u by (simp add: opened_event_def forbidden_file_def file_named_def)
  from status_update_error_does_not_abort [OF h1 h2 h3 h4 h5 h6 h7]
  have c: "api_calls (prWebhookHandler MainGo ?e (json_request ''opened''))
       = [FetchPRFiles ''acme'' ''repo'' 42,
          UpdatePRStatus ''acme'' ''repo'' 42 ''failure'' ''PR validation failed.'',
          ClosePullRequest ''acme'' ''repo'' 42]
   \<and> written (response (prWebhookHandler MainGo ?e (json_request ''opened'')))
       = ''PR #42 validation complete. Status: failure'' @ nl @ ''Files changed in PR:'' @ nl
         @ ''- forbidden.txt (additions: 0, deletions: 0, changes: 0)'' @ nl
   \<and> status_code (response (prWebhookHandler MainGo ?e (json_request ''opened''))) = 200"
    by (simp add: opened_event_def forbidden_file_def file_named_def enhanced_report_def
        new_writer_def file_line_def d42 d0)
  from u c show ?thesis by (rule conjI)
qed

end
